theory Spec2Isabelle
  imports Main "HOL-Library.Word"
begin

section \<open>Values, documents and dictionaries\<close>

text \<open>
  A Python \<open>str\<close> is the list of its code points, so that \<open>len\<close> is \<open>length\<close> and a
  slice is \<open>take\<close>. \<open>u\<close> writes a literal of the source as a \<open>str\<close>. Names and
  messages that only the store and the router handle (collection names, the text of a
  driver error, request paths) are kept as \<open>string\<close>, one character per code point.
\<close>

type_synonym str = "nat list"

definition u :: "string \<Rightarrow> str" where
  "u s = map of_char s"

text \<open>
  \<open>bson.ObjectId\<close> is represented by the lowercase hexadecimal digits of its bytes,
  which is what \<open>str(oid)\<close> returns.
\<close>

datatype oid = ObjectId str

fun str_oid :: "oid \<Rightarrow> str" where
  "str_oid (ObjectId h) = h"

text \<open>
  \<open>datetime.datetime\<close>: the calendar fields, and \<open>utcoffset\<close> the offset of an aware
  value in microseconds (\<open>None\<close> for a naive value).
\<close>

record datetime =
  year :: nat
  month :: nat
  day :: nat
  hour :: nat
  minute :: nat
  second :: nat
  microsecond :: nat
  utcoffset :: "int option"

text \<open>
  The values a document field or a JSON body can hold (\<open>Any\<close> in the source). A float is
  carried as its IEEE-754 bit pattern.
\<close>

datatype pyval =
    VNone
  | VBool bool
  | VInt int
  | VFloat "64 word"
  | VStr str
  | VObjectId oid
  | VDatetime datetime
  | VList "pyval list"
  | VDict "(str \<times> pyval) list"

type_synonym doc = "(str \<times> pyval) list"

text \<open>\<open>d[k] = v\<close> on a dict kept in insertion order: replace in place, else append.\<close>

fun dict_set :: "('k \<times> 'v) list \<Rightarrow> 'k \<Rightarrow> 'v \<Rightarrow> ('k \<times> 'v) list" where
  "dict_set [] k v = [(k, v)]"
| "dict_set ((k', v') # kvs) k v =
     (if k' = k then (k', v) # kvs else (k', v') # dict_set kvs k v)"

text \<open>\<open>d.get(k)\<close>.\<close>

definition dict_get :: "('k \<times> 'v) list \<Rightarrow> 'k \<Rightarrow> 'v option" where
  "dict_get d k = map_of d k"

section \<open>Rendering of identifiers and timestamps\<close>

text \<open>The digit \<open>d\<close> below 16 as a character: \<open>0\<close> to \<open>9\<close>, then \<open>a\<close> to \<open>f\<close>.\<close>

definition digit_char :: "nat \<Rightarrow> nat" where
  "digit_char d = (if d mod 16 < 10 then 48 + d mod 16 else 87 + d mod 16)"

text \<open>\<open>"%d" % n\<close> for a natural number.\<close>

fun dec :: "nat \<Rightarrow> str" where
  "dec n = (if n < 10 then [digit_char n] else dec (n div 10) @ [digit_char (n mod 10)])"

text \<open>\<open>"%0wd" % n\<close>: padded with zeros to at least \<open>w\<close> digits.\<close>

definition zpad :: "nat \<Rightarrow> nat \<Rightarrow> str" where
  "zpad w n = replicate (w - length (dec n)) 48 @ dec n"

text \<open>
  \<open>_format_time\<close> with \<open>timespec='auto'\<close>: the microseconds are printed only when they
  are not zero.
\<close>

definition format_time :: "nat \<Rightarrow> nat \<Rightarrow> nat \<Rightarrow> nat \<Rightarrow> str" where
  "format_time hh mm ss us =
     zpad 2 hh @ u '':'' @ zpad 2 mm @ u '':'' @ zpad 2 ss
       @ (if us \<noteq> 0 then u ''.'' @ zpad 6 us else [])"

text \<open>\<open>_format_offset\<close>: sign, hours and minutes, then seconds and microseconds if any.\<close>

definition format_offset :: "int option \<Rightarrow> str" where
  "format_offset off =
     (case off of
        None \<Rightarrow> []
      | Some o_us \<Rightarrow>
          (let sign = (if o_us < 0 then u ''-'' else u ''+'');
               a = nat \<bar>o_us\<bar>;
               hh = a div 3600000000;
               r = a mod 3600000000;
               mm = r div 60000000;
               ss = r mod 60000000
           in sign @ zpad 2 hh @ u '':'' @ zpad 2 mm
                @ (if ss \<noteq> 0
                   then u '':'' @ zpad 2 (ss div 1000000)
                          @ (if ss mod 1000000 \<noteq> 0 then u ''.'' @ zpad 6 (ss mod 1000000)
                             else [])
                   else [])))"

text \<open>\<open>datetime.isoformat()\<close> with the default separator \<open>T\<close>.\<close>

definition isoformat :: "datetime \<Rightarrow> str" where
  "isoformat d =
     zpad 4 (year d) @ u ''-'' @ zpad 2 (month d) @ u ''-'' @ zpad 2 (day d) @ u ''T''
       @ format_time (hour d) (minute d) (second d) (microsecond d)
       @ format_offset (utcoffset d)"

section \<open>The serializer\<close>

text \<open>
  The body of the loop of \<open>_serialize_doc\<close>: the \<open>isinstance\<close> chain on one value.
\<close>

fun serialize_value :: "pyval \<Rightarrow> pyval" where
  "serialize_value (VObjectId i) = VStr (str_oid i)"
| "serialize_value (VDatetime t) = VStr (isoformat t)"
| "serialize_value v = v"

text \<open>
  \<open>_serialize_doc\<close>: \<open>out\<close> starts empty and receives \<open>out[k] = ...\<close> for every item of
  \<open>doc\<close>, in order.
\<close>

definition serialize_doc :: "doc \<Rightarrow> doc" where
  "serialize_doc d = fold (\<lambda>(k, v) out. dict_set out k (serialize_value v)) d []"

section \<open>Exceptions\<close>

text \<open>
  The exceptions a handler can end with. A validation error lists, for each offending
  field, its location, the kind of the violated constraint and the input it refused.
  \<open>Exception\<close> carries the text that \<open>str(e)\<close> returns.
\<close>

type_synonym verr = "pyval list \<times> string \<times> pyval"

datatype error =
    HTTPException nat str
  | RequestValidationError "verr list"
  | InvalidId str
  | TypeError string
  | Exception string

section \<open>Generated identifiers\<close>

definition is_hex :: "nat \<Rightarrow> bool" where
  "is_hex c = ((48 \<le> c \<and> c \<le> 57) \<or> (97 \<le> c \<and> c \<le> 102) \<or> (65 \<le> c \<and> c \<le> 70))"

definition lower_hex :: "nat \<Rightarrow> nat" where
  "lower_hex c = (if 65 \<le> c \<and> c \<le> 70 then c + 32 else c)"

text \<open>ASCII white space: the space and the characters 9 to 13.\<close>

definition is_space :: "nat \<Rightarrow> bool" where
  "is_space c = (c = 32 \<or> (9 \<le> c \<and> c \<le> 13))"

text \<open>
  \<open>bytes.fromhex\<close>, the result written as lowercase hexadecimal digits: white space
  is skipped before a pair of digits, and anything but a pair of digits then is an error.
\<close>

fun fromhex :: "str \<Rightarrow> str option" where
  "fromhex [] = Some []"
| "fromhex (c # cs) =
     (if is_space c then fromhex cs
      else (case cs of
              [] \<Rightarrow> None
            | d # ds \<Rightarrow>
                if is_hex c \<and> is_hex d
                then map_option (\<lambda>r. lower_hex c # lower_hex d # r) (fromhex ds)
                else None))"

text \<open>
  The constructor \<open>ObjectId(s)\<close> of the driver on a \<open>str\<close>: a string of 24 characters
  that \<open>bytes.fromhex\<close> decodes gives the identifier of these bytes, anything else raises
  \<open>InvalidId\<close>.
\<close>

definition make_oid :: "str \<Rightarrow> error + oid" where
  "make_oid s =
     (if length s = 24
      then (case fromhex s of Some h \<Rightarrow> Inr (ObjectId h) | None \<Rightarrow> Inl (InvalidId s))
      else Inl (InvalidId s))"

text \<open>
  The identifiers the store hands out stand for the driver's generator: the \<open>n\<close>-th one
  is \<open>n\<close> written with 24 hexadecimal digits.
\<close>

fun hex_digits :: "nat \<Rightarrow> nat \<Rightarrow> str" where
  "hex_digits 0 n = []"
| "hex_digits (Suc k) n = hex_digits k (n div 16) @ [digit_char (n mod 16)]"

definition hex24 :: "nat \<Rightarrow> str" where
  "hex24 n = hex_digits 24 n"

definition gen_oid :: "nat \<Rightarrow> oid" where
  "gen_oid n = ObjectId (hex24 n)"

section \<open>The document store\<close>

text \<open>
  Modelled from the spec: the global \<open>db\<close> of the persistence module (not among the
  source files), the handle of the document store, \<open>None\<close> when no connection was
  set up. The spec (6): the persisted state is a set of named collections of record
  documents. \<open>db_name\<close> is what reading the attribute \<open>name\<close> gives: \<open>Inl m\<close> when
  the read raises with text \<open>m\<close>, \<open>Inr None\<close> when the handle has no such attribute.
  \<open>fault\<close> is \<open>Some m\<close> when the server cannot be reached: every call to it then
  raises with text \<open>m\<close>. \<open>collections\<close> holds the documents of each collection in
  their natural order, \<open>next_id\<close> counts the identifiers handed out.
\<close>

record database =
  db_name :: "string + string option"
  fault :: "string option"
  collections :: "(string \<times> doc list) list"
  next_id :: nat

definition coll :: "database \<Rightarrow> string \<Rightarrow> doc list" where
  "coll d c = (case map_of (collections d) c of None \<Rightarrow> [] | Some ds \<Rightarrow> ds)"

text \<open>
  Modelled from the spec: an exact-match filter (glossary, 4.2) requires the specified
  fields to equal the given values; the empty filter matches every record.
\<close>

definition matches :: "doc \<Rightarrow> doc \<Rightarrow> bool" where
  "matches filt d = list_all (\<lambda>(k, v). dict_get d k = Some v) filt"

text \<open>\<open>db[c]\<close>: subscripting \<open>None\<close> raises \<open>TypeError\<close>.\<close>

definition subscript :: "database option \<Rightarrow> string \<Rightarrow> error + database \<times> string" where
  "subscript db c =
     (case db of
        None \<Rightarrow> Inl (TypeError ''NoneType object is not subscriptable'')
      | Some d \<Rightarrow> Inr (d, c))"

text \<open>\<open>collection.find_one(filt)\<close> of the driver: the first matching document, or \<open>None\<close>.\<close>

definition find_one :: "database \<times> string \<Rightarrow> doc \<Rightarrow> error + doc option" where
  "find_one dc filt =
     (case fault (fst dc) of
        Some m \<Rightarrow> Inl (Exception m)
      | None \<Rightarrow> Inr (find (matches filt) (coll (fst dc) (snd dc))))"

text \<open>
  \<open>db.list_collection_names()\<close> of the driver; \<open>Inl m\<close> is an exception \<open>e\<close> with
  \<open>str(e) = m\<close>.
\<close>

definition list_collection_names :: "database \<Rightarrow> string + string list" where
  "list_collection_names d =
     (case fault d of
        Some m \<Rightarrow> Inl m
      | None \<Rightarrow> Inr (map fst (collections d)))"

text \<open>
  Modelled from the spec: the state of the store after \<open>create_document\<close> has
  inserted a record (the persistence module is not among the source files). The spec
  (4.2, 6): a collection maps generated identifiers to records, and insert persists one
  record under a newly assigned identifier. The record is stored behind its identifier
  \<open>_id\<close>, at the end of its collection.
\<close>

definition inserted :: "string \<Rightarrow> doc \<Rightarrow> database \<Rightarrow> database" where
  "inserted c data d =
     d\<lparr>collections :=
          dict_set (collections d) c
            (coll d c @ [(u ''_id'', VObjectId (gen_oid (next_id d))) # data]),
        next_id := Suc (next_id d)\<rparr>"

text \<open>
  Modelled from the spec: \<open>create_document\<close> of the persistence module, whose source is
  not among the source files. The spec (4.2): insert persists one record and returns its
  newly assigned identifier; it fails with a storage error if the connection is
  unavailable. The handlers pass the model; \<open>data\<close> is its dict of fields.
\<close>

definition create_document ::
  "string \<Rightarrow> doc \<Rightarrow> database option \<Rightarrow> (error + str) \<times> database option" where
  "create_document c data db =
     (case db of
        None \<Rightarrow> (Inl (Exception ''Database not available''), db)
      | Some d \<Rightarrow>
          (case fault d of
             Some m \<Rightarrow> (Inl (Exception m), db)
           | None \<Rightarrow> (Inr (str_oid (gen_oid (next_id d))), Some (inserted c data d))))"

text \<open>
  Modelled from the spec: \<open>get_documents\<close> of the persistence module, whose source is
  not among the source files. The spec (4.2): query returns the records matching an
  exact-match filter (the empty filter matches all), capped at \<open>limit\<close>, in the natural
  order of the store; it fails with a storage error if the connection is unavailable.
\<close>

definition get_documents :: "string \<Rightarrow> doc \<Rightarrow> int \<Rightarrow> database option \<Rightarrow> error + doc list" where
  "get_documents c filt limit db =
     (case db of
        None \<Rightarrow> Inl (Exception ''Database not available'')
      | Some d \<Rightarrow>
          (case fault d of
             Some m \<Rightarrow> Inl (Exception m)
           | None \<Rightarrow> Inr (take (nat limit) (filter (matches filt) (coll d c)))))"

section \<open>Schemas\<close>

text \<open>
  The models of \<open>schemas.py\<close>. The fields carry the model's name as a prefix
  (\<open>client_name\<close> is \<open>Client.name\<close>, \<open>inv_status\<close> is \<open>Invoice.status\<close>), since two
  records cannot share a field name. A \<open>Literal\<close> field holds one of its strings.
  \<open>InvoiceItem.quantity\<close> holds a validated float, or the default of the field, which is
  the integer 1 and is not validated.
\<close>

datatype py_num = PyInt int | PyFloat "64 word"

record client =
  client_name :: str
  client_email :: "str option"
  client_phone :: "str option"
  client_company :: "str option"
  client_address :: "str option"
  client_notes :: "str option"
  client_status :: str

record invoice_item =
  item_description :: str
  item_quantity :: py_num
  item_unit_price :: "64 word"

record invoice =
  inv_invoice_number :: "str option"
  inv_client_id :: "str option"
  inv_issue_date :: "str option"
  inv_due_date :: "str option"
  inv_items :: "invoice_item list"
  inv_currency :: str
  inv_status :: str
  inv_notes :: "str option"
  inv_terms :: "str option"

definition client_statuses :: "string list" where
  "client_statuses = [''active'', ''inactive'', ''prospect'']"

definition currencies :: "string list" where
  "currencies = [''USD'', ''EUR'', ''GBP'', ''INR'', ''JPY'', ''AUD'', ''CAD'']"

definition invoice_statuses :: "string list" where
  "invoice_statuses = [''draft'', ''sent'', ''paid'', ''overdue'', ''cancelled'']"

text \<open>The record a model is persisted as: its fields in declaration order.\<close>

definition dump_opt :: "str option \<Rightarrow> pyval" where
  "dump_opt x = (case x of None \<Rightarrow> VNone | Some s \<Rightarrow> VStr s)"

definition dump_num :: "py_num \<Rightarrow> pyval" where
  "dump_num x = (case x of PyInt i \<Rightarrow> VInt i | PyFloat w \<Rightarrow> VFloat w)"

definition client_dump :: "client \<Rightarrow> doc" where
  "client_dump c =
     [(u ''name'', VStr (client_name c)),
      (u ''email'', dump_opt (client_email c)),
      (u ''phone'', dump_opt (client_phone c)),
      (u ''company'', dump_opt (client_company c)),
      (u ''address'', dump_opt (client_address c)),
      (u ''notes'', dump_opt (client_notes c)),
      (u ''status'', VStr (client_status c))]"

definition item_dump :: "invoice_item \<Rightarrow> pyval" where
  "item_dump it =
     VDict [(u ''description'', VStr (item_description it)),
            (u ''quantity'', dump_num (item_quantity it)),
            (u ''unit_price'', VFloat (item_unit_price it))]"

definition invoice_dump :: "invoice \<Rightarrow> doc" where
  "invoice_dump i =
     [(u ''invoice_number'', dump_opt (inv_invoice_number i)),
      (u ''client_id'', dump_opt (inv_client_id i)),
      (u ''issue_date'', dump_opt (inv_issue_date i)),
      (u ''due_date'', dump_opt (inv_due_date i)),
      (u ''items'', VList (map item_dump (inv_items i))),
      (u ''currency'', VStr (inv_currency i)),
      (u ''status'', VStr (inv_status i)),
      (u ''notes'', dump_opt (inv_notes i)),
      (u ''terms'', dump_opt (inv_terms i))]"

section \<open>Route handlers\<close>

text \<open>
  A handler takes the handle \<open>db\<close> and returns what it returns or raises, with the
  handle as it leaves it. \<open>_collection_name\<close> lowers the name of the model class:
  the collections are \<open>client\<close> and \<open>invoice\<close>.
\<close>

definition read_root :: doc where
  "read_root = [(u ''message'', VStr (u ''Hello from FastAPI Backend!''))]"

definition health :: doc where
  "health = [(u ''status'', VStr (u ''ok''))]"

definition list_clients :: "int \<Rightarrow> database option \<Rightarrow> error + doc list" where
  "list_clients limit db =
     (case get_documents ''client'' [] limit db of
        Inl e \<Rightarrow> Inl e
      | Inr docs \<Rightarrow> Inr (map serialize_doc docs))"

text \<open>
  \<open>_serialize_doc(doc) if doc else {"_id": inserted_id}\<close>: \<open>None\<close> and the empty dict
  are both false.
\<close>

definition created_response :: "doc option \<Rightarrow> str \<Rightarrow> doc" where
  "created_response found inserted_id =
     (case found of
        None \<Rightarrow> [(u ''_id'', VStr inserted_id)]
      | Some d \<Rightarrow> if d \<noteq> [] then serialize_doc d else [(u ''_id'', VStr inserted_id)])"

text \<open>
  The common tail of both create handlers: \<open>db[c]\<close>, then \<open>ObjectId(inserted_id)\<close>,
  then \<open>find_one\<close>.
\<close>

definition fetch_inserted :: "string \<Rightarrow> str \<Rightarrow> database option \<Rightarrow> error + doc" where
  "fetch_inserted c inserted_id db =
     (case subscript db c of
        Inl e \<Rightarrow> Inl e
      | Inr dc \<Rightarrow>
          (case make_oid inserted_id of
             Inl e \<Rightarrow> Inl e
           | Inr i \<Rightarrow>
               (case find_one dc [(u ''_id'', VObjectId i)] of
                  Inl e \<Rightarrow> Inl e
                | Inr found \<Rightarrow> Inr (created_response found inserted_id))))"

definition create_client :: "client \<Rightarrow> database option \<Rightarrow> (error + doc) \<times> database option" where
  "create_client payload db =
     (case create_document ''client'' (client_dump payload) db of
        (Inl e, db') \<Rightarrow> (Inl e, db')
      | (Inr inserted_id, db') \<Rightarrow> (fetch_inserted ''client'' inserted_id db', db'))"

text \<open>
  \<open>if status:\<close> on an \<open>Optional[str]\<close>: \<open>None\<close> and the empty string are false,
  and add no entry to the filter.
\<close>

definition invoice_filter :: "str option \<Rightarrow> str option \<Rightarrow> doc" where
  "invoice_filter status client_id =
     (let filt = [];
          filt = (case status of
                    Some s \<Rightarrow> if s \<noteq> [] then dict_set filt (u ''status'') (VStr s) else filt
                  | None \<Rightarrow> filt);
          filt = (case client_id of
                    Some c \<Rightarrow> if c \<noteq> [] then dict_set filt (u ''client_id'') (VStr c) else filt
                  | None \<Rightarrow> filt)
      in filt)"

definition list_invoices ::
  "str option \<Rightarrow> str option \<Rightarrow> int \<Rightarrow> database option \<Rightarrow> error + doc list" where
  "list_invoices status client_id limit db =
     (case get_documents ''invoice'' (invoice_filter status client_id) limit db of
        Inl e \<Rightarrow> Inl e
      | Inr docs \<Rightarrow> Inr (map serialize_doc docs))"

text \<open>
  The reference check of \<open>create_invoice\<close>: for a client_id that is not false, the
  client is looked up when \<open>len(client_id)\<close> is 24 and is \<open>None\<close> otherwise, and
  \<open>None\<close> raises the 400.
\<close>

definition find_client :: "str \<Rightarrow> database option \<Rightarrow> error + doc option" where
  "find_client client_id db =
     (if length client_id = 24
      then (case subscript db ''client'' of
              Inl e \<Rightarrow> Inl e
            | Inr dc \<Rightarrow>
                (case make_oid client_id of
                   Inl e \<Rightarrow> Inl e
                 | Inr i \<Rightarrow> find_one dc [(u ''_id'', VObjectId i)]))
      else Inr None)"

definition check_client :: "str option \<Rightarrow> database option \<Rightarrow> error + unit" where
  "check_client client_id db =
     (case client_id of
        None \<Rightarrow> Inr ()
      | Some c \<Rightarrow>
          if c \<noteq> [] then
            (case find_client c db of
               Inl e \<Rightarrow> Inl e
             | Inr None \<Rightarrow> Inl (HTTPException 400 (u ''Invalid client_id''))
             | Inr (Some client) \<Rightarrow> Inr ())
          else Inr ())"

definition create_invoice :: "invoice \<Rightarrow> database option \<Rightarrow> (error + doc) \<times> database option" where
  "create_invoice payload db =
     (case check_client (inv_client_id payload) db of
        Inl e \<Rightarrow> (Inl e, db)
      | Inr ok \<Rightarrow>
          (case create_document ''invoice'' (invoice_dump payload) db of
             (Inl e, db') \<Rightarrow> (Inl e, db')
           | (Inr inserted_id, db') \<Rightarrow> (fetch_inserted ''invoice'' inserted_id db', db')))"

section \<open>The diagnostic route\<close>

text \<open>The symbols of the messages: U+2705, U+274C, and U+26A0 followed by U+FE0F.\<close>

definition check_mark :: str where
  "check_mark = [0x2705]"

definition cross_mark :: str where
  "cross_mark = [0x274C]"

definition warning_sign :: str where
  "warning_sign = [0x26A0, 0xFE0F]"

text \<open>
  \<open>test_database\<close>, given \<open>os.getenv("DATABASE_URL")\<close> and the handle. The dict
  \<open>response\<close> is updated statement by statement. Reading \<open>db.name\<close> is the only
  statement outside the inner \<open>try\<close> that can raise; the outer handler then overwrites
  the field \<open>database\<close> of the response as it stands. An error of the listing is caught
  by the inner handler. \<open>str(e)[:80]\<close> is \<open>take 80\<close>.
\<close>

definition test_database :: "string option \<Rightarrow> database option \<Rightarrow> doc" where
  "test_database getenv db =
     (let response =
            [(u ''backend'', VStr (check_mark @ u '' Running'')),
             (u ''database'', VStr (cross_mark @ u '' Not Available'')),
             (u ''database_url'', VNone),
             (u ''database_name'', VNone),
             (u ''connection_status'', VStr (u ''Not Connected'')),
             (u ''collections'', VList [])]
      in case db of
           None \<Rightarrow>
             dict_set response (u ''database'')
               (VStr (warning_sign @ u ''  Available but not initialized''))
         | Some d \<Rightarrow>
             (let response = dict_set response (u ''database'')
                    (VStr (check_mark @ u '' Available''));
                  response = dict_set response (u ''database_url'')
                    (VStr (case getenv of
                             None \<Rightarrow> cross_mark @ u '' Not Set''
                           | Some url \<Rightarrow> if url \<noteq> [] then check_mark @ u '' Set''
                                         else cross_mark @ u '' Not Set''))
              in case db_name d of
                   Inl m \<Rightarrow>
                     dict_set response (u ''database'')
                       (VStr (cross_mark @ u '' Error: '' @ u (take 80 m)))
                 | Inr nm \<Rightarrow>
                     (let response = dict_set response (u ''database_name'')
                            (VStr (case nm of
                                     Some n \<Rightarrow> u n
                                   | None \<Rightarrow> check_mark @ u '' Connected''));
                          response = dict_set response (u ''connection_status'')
                            (VStr (u ''Connected''))
                      in case list_collection_names d of
                           Inr names \<Rightarrow>
                             (let response = dict_set response (u ''collections'')
                                    (VList (map VStr (map u (take 10 names))))
                              in dict_set response (u ''database'')
                                   (VStr (check_mark @ u '' Connected & Working'')))
                         | Inl m \<Rightarrow>
                             dict_set response (u ''database'')
                               (VStr (warning_sign @ u ''  Connected but Error: ''
                                        @ u (take 80 m))))))"

section \<open>Request validation\<close>

text \<open>
  What the web framework and the validation library contribute and the repository does
  not define: the validator behind \<open>EmailStr\<close> (the normalised address, or \<open>None\<close> for
  a malformed one), the conversion of a JSON value to a float and of a query string to an
  integer, the generated JSON schemas and the documentation pages the framework serves.
\<close>

record lib =
  email_validate :: "str \<Rightarrow> str option"
  float_validate :: "pyval \<Rightarrow> 64 word option"
  int_validate :: "str \<Rightarrow> int option"
  client_json_schema :: pyval
  invoice_json_schema :: pyval
  docs_page :: "string \<Rightarrow> pyval"

text \<open>
  A \<open>str\<close> is text when it can be encoded: no code point is a surrogate or beyond
  U+10FFFF. The parser of JSON bodies admits escaped lone surrogates; a field with a
  length constraint refuses such a string, since its characters cannot be counted.
\<close>

definition is_scalar :: "nat \<Rightarrow> bool" where
  "is_scalar c = (c < 0xD800 \<or> (0xE000 \<le> c \<and> c < 0x110000))"

definition is_text :: "str \<Rightarrow> bool" where
  "is_text s = list_all is_scalar s"

text \<open>\<open>x >= 0\<close> on the bit pattern of a double: a positive number or infinity, or a zero.\<close>

definition float_ge0 :: "64 word \<Rightarrow> bool" where
  "float_ge0 w = (w \<le> 0x7FF0000000000000 \<or> w = 0x8000000000000000)"

text \<open>
  Validation collects the errors of all fields: \<open>ap\<close> applies a constructor to
  validated fields, or joins their errors.
\<close>

fun ap :: "verr list + ('a \<Rightarrow> 'b) \<Rightarrow> verr list + 'a \<Rightarrow> verr list + 'b" where
  "ap (Inr f) (Inr x) = Inr (f x)"
| "ap (Inr f) (Inl e) = Inl e"
| "ap (Inl e) (Inr x) = Inl e"
| "ap (Inl e) (Inl e') = Inl (e @ e')"

text \<open>
  A required \<open>str\<close> field with \<open>min_length\<close> and \<open>max_length\<close>, which count code
  points. The error of a missing field refers to the dict that lacks it.
\<close>

definition str_field :: "pyval list \<Rightarrow> string \<Rightarrow> nat \<Rightarrow> nat \<Rightarrow> doc \<Rightarrow> verr list + str" where
  "str_field loc k lo hi fs =
     (case dict_get fs (u k) of
        None \<Rightarrow> Inl [(loc @ [VStr (u k)], ''missing'', VDict fs)]
      | Some (VStr s) \<Rightarrow>
          if \<not> is_text s then Inl [(loc @ [VStr (u k)], ''string_unicode'', VStr s)]
          else if length s < lo then Inl [(loc @ [VStr (u k)], ''string_too_short'', VStr s)]
          else if hi < length s then Inl [(loc @ [VStr (u k)], ''string_too_long'', VStr s)]
          else Inr s
      | Some v \<Rightarrow> Inl [(loc @ [VStr (u k)], ''string_type'', v)])"

text \<open>
  An \<open>Optional[str]\<close> field with default \<open>None\<close>. It has no constraint, and a
  \<open>str\<close> is kept as it is, ill-formed or not.
\<close>

definition opt_str_field :: "pyval list \<Rightarrow> string \<Rightarrow> doc \<Rightarrow> verr list + str option" where
  "opt_str_field loc k fs =
     (case dict_get fs (u k) of
        None \<Rightarrow> Inr None
      | Some VNone \<Rightarrow> Inr None
      | Some (VStr s) \<Rightarrow> Inr (Some s)
      | Some v \<Rightarrow> Inl [(loc @ [VStr (u k)], ''string_type'', v)])"

text \<open>
  An \<open>Optional[EmailStr]\<close> field with default \<open>None\<close>: the value kept is the address
  as the validator returns it, which is text.
\<close>

definition email_field :: "lib \<Rightarrow> pyval list \<Rightarrow> string \<Rightarrow> doc \<Rightarrow> verr list + str option" where
  "email_field L loc k fs =
     (case dict_get fs (u k) of
        None \<Rightarrow> Inr None
      | Some VNone \<Rightarrow> Inr None
      | Some (VStr s) \<Rightarrow>
          (case email_validate L s of
             None \<Rightarrow> Inl [(loc @ [VStr (u k)], ''value_error'', VStr s)]
           | Some s' \<Rightarrow>
               if is_text s' then Inr (Some s')
               else Inl [(loc @ [VStr (u k)], ''value_error'', VStr s)])
      | Some v \<Rightarrow> Inl [(loc @ [VStr (u k)], ''string_type'', v)])"

text \<open>A \<open>Literal[...]\<close> field with a default.\<close>

definition literal_field ::
  "pyval list \<Rightarrow> string \<Rightarrow> string list \<Rightarrow> string \<Rightarrow> doc \<Rightarrow> verr list + str" where
  "literal_field loc k allowed dflt fs =
     (case dict_get fs (u k) of
        None \<Rightarrow> Inr (u dflt)
      | Some (VStr s) \<Rightarrow>
          if s \<in> set (map u allowed) then Inr s
          else Inl [(loc @ [VStr (u k)], ''literal_error'', VStr s)]
      | Some v \<Rightarrow> Inl [(loc @ [VStr (u k)], ''literal_error'', v)])"

text \<open>A required \<open>float\<close> field with \<open>ge=0\<close>.\<close>

definition float_field :: "lib \<Rightarrow> pyval list \<Rightarrow> string \<Rightarrow> doc \<Rightarrow> verr list + 64 word" where
  "float_field L loc k fs =
     (case dict_get fs (u k) of
        None \<Rightarrow> Inl [(loc @ [VStr (u k)], ''missing'', VDict fs)]
      | Some v \<Rightarrow>
          (case float_validate L v of
             None \<Rightarrow> Inl [(loc @ [VStr (u k)], ''float_type'', v)]
           | Some x \<Rightarrow>
               if float_ge0 x then Inr x
               else Inl [(loc @ [VStr (u k)], ''greater_than_equal'', v)]))"

text \<open>
  \<open>quantity: float = Field(1, ge=0)\<close>: a given value is validated as a float, an
  omitted one is the default as it is written, the integer 1.
\<close>

definition quantity_field :: "lib \<Rightarrow> pyval list \<Rightarrow> doc \<Rightarrow> verr list + py_num" where
  "quantity_field L loc fs =
     (case dict_get fs (u ''quantity'') of
        None \<Rightarrow> Inr (PyInt 1)
      | Some v \<Rightarrow>
          (case float_field L loc ''quantity'' fs of
             Inl es \<Rightarrow> Inl es
           | Inr x \<Rightarrow> Inr (PyFloat x)))"

definition mk_client ::
  "str \<Rightarrow> str option \<Rightarrow> str option \<Rightarrow> str option \<Rightarrow> str option \<Rightarrow> str option \<Rightarrow> str
     \<Rightarrow> client" where
  "mk_client n e p c a no s =
     \<lparr>client_name = n, client_email = e, client_phone = p, client_company = c,
      client_address = a, client_notes = no, client_status = s\<rparr>"

text \<open>The fields of \<open>Client\<close>, in declaration order.\<close>

definition client_fields :: "lib \<Rightarrow> doc \<Rightarrow> verr list + client" where
  "client_fields L fs =
     ap (ap (ap (ap (ap (ap (ap (Inr mk_client)
       (str_field [VStr (u ''body'')] ''name'' 2 120 fs))
       (email_field L [VStr (u ''body'')] ''email'' fs))
       (opt_str_field [VStr (u ''body'')] ''phone'' fs))
       (opt_str_field [VStr (u ''body'')] ''company'' fs))
       (opt_str_field [VStr (u ''body'')] ''address'' fs))
       (opt_str_field [VStr (u ''body'')] ''notes'' fs))
       (literal_field [VStr (u ''body'')] ''status'' client_statuses ''active'' fs)"

text \<open>
  The body parameter \<open>payload: Client\<close>: the request must have a body other than
  \<open>null\<close>, the body must be a JSON object, and its fields must validate.
\<close>

definition validate_client :: "lib \<Rightarrow> pyval option \<Rightarrow> error + client" where
  "validate_client L body =
     (case body of
        None \<Rightarrow> Inl (RequestValidationError [([VStr (u ''body'')], ''missing'', VNone)])
      | Some VNone \<Rightarrow> Inl (RequestValidationError [([VStr (u ''body'')], ''missing'', VNone)])
      | Some (VDict fs) \<Rightarrow>
          (case client_fields L fs of
             Inl es \<Rightarrow> Inl (RequestValidationError es)
           | Inr c \<Rightarrow> Inr c)
      | Some v \<Rightarrow>
          Inl (RequestValidationError [([VStr (u ''body'')], ''model_attributes_type'', v)]))"

definition mk_item :: "str \<Rightarrow> py_num \<Rightarrow> 64 word \<Rightarrow> invoice_item" where
  "mk_item d q p = \<lparr>item_description = d, item_quantity = q, item_unit_price = p\<rparr>"

definition validate_item :: "lib \<Rightarrow> pyval list \<Rightarrow> pyval \<Rightarrow> verr list + invoice_item" where
  "validate_item L loc v =
     (case v of
        VDict fs \<Rightarrow>
          ap (ap (ap (Inr mk_item)
            (str_field loc ''description'' 1 200 fs))
            (quantity_field L loc fs))
            (float_field L loc ''unit_price'' fs)
      | _ \<Rightarrow> Inl [(loc, ''model_attributes_type'', v)])"

text \<open>The items of the list, each located by its index.\<close>

fun validate_items :: "lib \<Rightarrow> nat \<Rightarrow> pyval list \<Rightarrow> verr list + invoice_item list" where
  "validate_items L i [] = Inr []"
| "validate_items L i (v # vs) =
     ap (ap (Inr Cons) (validate_item L [VStr (u ''body''), VStr (u ''items''), VInt (int i)] v))
        (validate_items L (Suc i) vs)"

text \<open>\<open>items: list[InvoiceItem]\<close> with \<open>default_factory=list\<close>.\<close>

definition items_field :: "lib \<Rightarrow> doc \<Rightarrow> verr list + invoice_item list" where
  "items_field L fs =
     (case dict_get fs (u ''items'') of
        None \<Rightarrow> Inr []
      | Some (VList vs) \<Rightarrow> validate_items L 0 vs
      | Some v \<Rightarrow> Inl [([VStr (u ''body''), VStr (u ''items'')], ''list_type'', v)])"

definition mk_invoice ::
  "str option \<Rightarrow> str option \<Rightarrow> str option \<Rightarrow> str option \<Rightarrow> invoice_item list
     \<Rightarrow> str \<Rightarrow> str \<Rightarrow> str option \<Rightarrow> str option \<Rightarrow> invoice" where
  "mk_invoice n c i d its cur s no t =
     \<lparr>inv_invoice_number = n, inv_client_id = c, inv_issue_date = i, inv_due_date = d,
      inv_items = its, inv_currency = cur, inv_status = s, inv_notes = no, inv_terms = t\<rparr>"

text \<open>The fields of \<open>Invoice\<close>, in declaration order.\<close>

definition invoice_fields :: "lib \<Rightarrow> doc \<Rightarrow> verr list + invoice" where
  "invoice_fields L fs =
     ap (ap (ap (ap (ap (ap (ap (ap (ap (Inr mk_invoice)
       (opt_str_field [VStr (u ''body'')] ''invoice_number'' fs))
       (opt_str_field [VStr (u ''body'')] ''client_id'' fs))
       (opt_str_field [VStr (u ''body'')] ''issue_date'' fs))
       (opt_str_field [VStr (u ''body'')] ''due_date'' fs))
       (items_field L fs))
       (literal_field [VStr (u ''body'')] ''currency'' currencies ''USD'' fs))
       (literal_field [VStr (u ''body'')] ''status'' invoice_statuses ''draft'' fs))
       (opt_str_field [VStr (u ''body'')] ''notes'' fs))
       (opt_str_field [VStr (u ''body'')] ''terms'' fs)"

definition validate_invoice :: "lib \<Rightarrow> pyval option \<Rightarrow> error + invoice" where
  "validate_invoice L body =
     (case body of
        None \<Rightarrow> Inl (RequestValidationError [([VStr (u ''body'')], ''missing'', VNone)])
      | Some VNone \<Rightarrow> Inl (RequestValidationError [([VStr (u ''body'')], ''missing'', VNone)])
      | Some (VDict fs) \<Rightarrow>
          (case invoice_fields L fs of
             Inl es \<Rightarrow> Inl (RequestValidationError es)
           | Inr i \<Rightarrow> Inr i)
      | Some v \<Rightarrow>
          Inl (RequestValidationError [([VStr (u ''body'')], ''model_attributes_type'', v)]))"

text \<open>\<open>limit: int = Query(50, ge=1, le=200)\<close>, from the text of the query parameter.\<close>

definition validate_limit :: "lib \<Rightarrow> str option \<Rightarrow> error + int" where
  "validate_limit L q =
     (case q of
        None \<Rightarrow> Inr 50
      | Some raw \<Rightarrow>
          (case int_validate L raw of
             None \<Rightarrow>
               Inl (RequestValidationError
                      [([VStr (u ''query''), VStr (u ''limit'')], ''int_parsing'', VStr raw)])
           | Some n \<Rightarrow>
               if n < 1 then
                 Inl (RequestValidationError
                        [([VStr (u ''query''), VStr (u ''limit'')], ''greater_than_equal'',
                          VStr raw)])
               else if 200 < n then
                 Inl (RequestValidationError
                        [([VStr (u ''query''), VStr (u ''limit'')], ''less_than_equal'',
                          VStr raw)])
               else Inr n))"

section \<open>Rendering a response\<close>

text \<open>A double is finite when its exponent bits are not all ones.\<close>

definition finite_float :: "64 word \<Rightarrow> bool" where
  "finite_float w = (unat w div 2 ^ 52 mod 2048 \<noteq> 2047)"

text \<open>
  Whether the framework can render a returned value as JSON: the encoder has no rule for
  an ObjectId, the JSON writer refuses NaN and the infinities (\<open>allow_nan=False\<close>), and
  the result must encode as UTF-8.
\<close>

primrec render_ok :: "pyval \<Rightarrow> bool" where
  "render_ok VNone = True"
| "render_ok (VBool b) = True"
| "render_ok (VInt i) = True"
| "render_ok (VFloat w) = finite_float w"
| "render_ok (VStr s) = is_text s"
| "render_ok (VObjectId i) = False"
| "render_ok (VDatetime t) = True"
| "render_ok (VList xs) = list_all id (map render_ok xs)"
| "render_ok (VDict kvs) =
     list_all (\<lambda>(k, ok). is_text k \<and> ok) (map (map_prod id render_ok) kvs)"

text \<open>\<open>jsonable_encoder\<close>: a datetime becomes its ISO string, at any depth.\<close>

primrec jsonable :: "pyval \<Rightarrow> pyval" where
  "jsonable VNone = VNone"
| "jsonable (VBool b) = VBool b"
| "jsonable (VInt i) = VInt i"
| "jsonable (VFloat w) = VFloat w"
| "jsonable (VStr s) = VStr s"
| "jsonable (VObjectId i) = VObjectId i"
| "jsonable (VDatetime t) = VStr (isoformat t)"
| "jsonable (VList xs) = VList (map jsonable xs)"
| "jsonable (VDict kvs) = VDict (map (map_prod id jsonable) kvs)"

datatype response = Response nat pyval | RedirectResponse string

definition server_error :: response where
  "server_error = Response 500 (VStr (u ''Internal Server Error''))"

text \<open>
  A JSON response with a status code; when the content cannot be rendered the exception
  is not handled and the answer is 500.
\<close>

definition render :: "nat \<Rightarrow> pyval \<Rightarrow> response" where
  "render code v = (if render_ok v then Response code (jsonable v) else server_error)"

text \<open>
  One entry of the detail of a 422: the kind of the error, its location and the input it
  refers to (the message and the context of the framework's entry are left out).
\<close>

definition verr_json :: "verr \<Rightarrow> pyval" where
  "verr_json e =
     VDict [(u ''type'', VStr (u (fst (snd e)))), (u ''loc'', VList (fst e)),
            (u ''input'', snd (snd e))]"

definition detail_json :: "verr list \<Rightarrow> pyval" where
  "detail_json es = VDict [(u ''detail'', VList (map verr_json es))]"

text \<open>
  The exception handlers of the framework: an \<open>HTTPException\<close> gives its status and
  detail, a validation error gives 422 with the list of errors, any other exception
  gives 500.
\<close>

fun error_response :: "error \<Rightarrow> response" where
  "error_response (HTTPException code detail) = render code (VDict [(u ''detail'', VStr detail)])"
| "error_response (RequestValidationError es) = render 422 (detail_json es)"
| "error_response e = server_error"

definition respond :: "nat \<Rightarrow> error + pyval \<Rightarrow> response" where
  "respond code r = (case r of Inl e \<Rightarrow> error_response e | Inr v \<Rightarrow> render code v)"

definition docs_json :: "doc list \<Rightarrow> pyval" where
  "docs_json ds = VList (map VDict ds)"

section \<open>Routing and the application\<close>

text \<open>The request methods the model distinguishes.\<close>

datatype http_method = GET | POST | PUT | DELETE

datatype handler =
    Docs
  | Read_root
  | Health
  | Test_database
  | Get_schemas
  | List_clients
  | Create_client
  | List_invoices
  | Create_invoice

text \<open>
  The route table: the documentation routes the framework registers when the application
  is constructed, then the decorated functions of \<open>main.py\<close> in source order.
\<close>

definition routes :: "(http_method \<times> string \<times> handler) list" where
  "routes =
     [(GET, ''/openapi.json'', Docs),
      (GET, ''/docs'', Docs),
      (GET, ''/docs/oauth2-redirect'', Docs),
      (GET, ''/redoc'', Docs),
      (GET, ''/'', Read_root),
      (GET, ''/api/health'', Health),
      (GET, ''/test'', Test_database),
      (GET, ''/schema'', Get_schemas),
      (GET, ''/clients'', List_clients),
      (POST, ''/clients'', Create_client),
      (GET, ''/invoices'', List_invoices),
      (POST, ''/invoices'', Create_invoice)]"

datatype routed = Found handler | MethodNotAllowed | Redirect string | NotFound

definition rstrip_slash :: "string \<Rightarrow> string" where
  "rstrip_slash p = rev (dropWhile (\<lambda>c. c = CHR ''/'') (rev p))"

text \<open>
  The router: the first route whose path and method match; failing that, a route whose
  path matches gives 405; failing that, a path that matches a route once its trailing
  slash is added or removed is redirected; anything else is 404.
\<close>

definition resolve :: "http_method \<Rightarrow> string \<Rightarrow> routed" where
  "resolve m p =
     (case find (\<lambda>(m', p', h). p' = p \<and> m' = m) routes of
        Some (m', p', h) \<Rightarrow> Found h
      | None \<Rightarrow>
          if p \<in> set (map (\<lambda>(m', p', h). p') routes) then MethodNotAllowed
          else
            (let alt = (if p \<noteq> [] \<and> last p = CHR ''/'' then rstrip_slash p else p @ ''/'')
             in if p \<noteq> ''/'' \<and> alt \<in> set (map (\<lambda>(m', p', h). p') routes) then Redirect alt
                else NotFound))"

text \<open>
  A request: the method, the path, the query parameters the routes declare (as the text
  the request gives them) and the parsed JSON body.
\<close>

record request =
  req_method :: http_method
  req_path :: string
  q_status :: "str option"
  q_client_id :: "str option"
  q_limit :: "str option"
  req_body :: "pyval option"

text \<open>
  The process state: the environment variable \<open>DATABASE_URL\<close> and the global \<open>db\<close>.
\<close>

record world =
  env_database_url :: "string option"
  db :: "database option"

text \<open>One request against the application: the response and the state it leaves.\<close>

definition handle :: "lib \<Rightarrow> request \<Rightarrow> world \<Rightarrow> response \<times> world" where
  "handle L rq w =
     (case resolve (req_method rq) (req_path rq) of
        NotFound \<Rightarrow> (Response 404 (VDict [(u ''detail'', VStr (u ''Not Found''))]), w)
      | MethodNotAllowed \<Rightarrow>
          (Response 405 (VDict [(u ''detail'', VStr (u ''Method Not Allowed''))]), w)
      | Redirect p \<Rightarrow> (RedirectResponse p, w)
      | Found h \<Rightarrow>
          (case h of
             Docs \<Rightarrow> (Response 200 (docs_page L (req_path rq)), w)
           | Read_root \<Rightarrow> (render 200 (VDict read_root), w)
           | Health \<Rightarrow> (render 200 (VDict health), w)
           | Test_database \<Rightarrow>
               (render 200 (VDict (test_database (env_database_url w) (db w))), w)
           | Get_schemas \<Rightarrow>
               (render 200 (VDict [(u ''client'', client_json_schema L),
                                   (u ''invoice'', invoice_json_schema L)]), w)
           | List_clients \<Rightarrow>
               (case validate_limit L (q_limit rq) of
                  Inl e \<Rightarrow> (error_response e, w)
                | Inr limit \<Rightarrow>
                    (respond 200 (map_sum id docs_json (list_clients limit (db w))), w))
           | Create_client \<Rightarrow>
               (case validate_client L (req_body rq) of
                  Inl e \<Rightarrow> (error_response e, w)
                | Inr payload \<Rightarrow>
                    (case create_client payload (db w) of
                       (r, db') \<Rightarrow> (respond 201 (map_sum id VDict r), w\<lparr>db := db'\<rparr>)))
           | List_invoices \<Rightarrow>
               (case validate_limit L (q_limit rq) of
                  Inl e \<Rightarrow> (error_response e, w)
                | Inr limit \<Rightarrow>
                    (respond 200
                       (map_sum id docs_json
                          (list_invoices (q_status rq) (q_client_id rq) limit (db w))), w))
           | Create_invoice \<Rightarrow>
               (case validate_invoice L (req_body rq) of
                  Inl e \<Rightarrow> (error_response e, w)
                | Inr payload \<Rightarrow>
                    (case create_invoice payload (db w) of
                       (r, db') \<Rightarrow> (respond 201 (map_sum id VDict r), w\<lparr>db := db'\<rparr>)))))"

section \<open>Example states\<close>

text \<open>
  A stand-in for the libraries that agrees with them on the inputs of the examples: the
  address validator lowers the ASCII letters of the domain, as the normalisation of
  \<open>EmailStr\<close> does, and refuses a string without \<open>@\<close>; a JSON float is a float; a
  string of decimal digits is an integer. Then a store with one client and two invoices,
  an empty store, a store whose server is unreachable, and some requests.
\<close>

fun lower_domain :: "bool \<Rightarrow> str \<Rightarrow> str" where
  "lower_domain seen [] = []"
| "lower_domain seen (c # cs) =
     (if seen \<and> 65 \<le> c \<and> c \<le> 90 then c + 32 else c) # lower_domain (seen \<or> c = 64) cs"

definition example_lib :: lib where
  "example_lib =
     \<lparr>email_validate = (\<lambda>s. if 64 \<in> set s then Some (lower_domain False s) else None),
      float_validate = (\<lambda>v. case v of VFloat x \<Rightarrow> Some x | _ \<Rightarrow> None),
      int_validate =
        (\<lambda>s. if s \<noteq> [] \<and> list_all (\<lambda>c. 48 \<le> c \<and> c \<le> 57) s
             then Some (foldl (\<lambda>a c. 10 * a + int (c - 48)) 0 s) else None),
      client_json_schema = VNone, invoice_json_schema = VNone,
      docs_page = (\<lambda>p. VNone)\<rparr>"

definition example_db :: database where
  "example_db = \<lparr>db_name = Inr (Some ''appdb''), fault = None, collections = [], next_id = 0\<rparr>"

definition example_world :: world where
  "example_world = \<lparr>env_database_url = Some ''mongodb://localhost'', db = Some example_db\<rparr>"

definition stored_db :: database where
  "stored_db =
     \<lparr>db_name = Inr (Some ''appdb''), fault = None,
      collections =
        [(''client'',
          [[(u ''_id'', VObjectId (ObjectId (u ''000000000000000000000000''))),
            (u ''name'', VStr (u ''Acme Co'')), (u ''status'', VStr (u ''active''))]]),
         (''invoice'',
          [[(u ''_id'', VObjectId (ObjectId (u ''000000000000000000000001''))),
            (u ''client_id'', VStr (u ''000000000000000000000000'')),
            (u ''status'', VStr (u ''draft''))],
           [(u ''_id'', VObjectId (ObjectId (u ''000000000000000000000002''))),
            (u ''client_id'', VNone), (u ''status'', VStr (u ''paid''))]])],
      next_id = 3\<rparr>"

definition stored_world :: world where
  "stored_world = \<lparr>env_database_url = Some ''mongodb://localhost'', db = Some stored_db\<rparr>"

definition faulty_world :: world where
  "faulty_world =
     \<lparr>env_database_url = None, db = Some (example_db\<lparr>fault := Some ''timed out''\<rparr>)\<rparr>"

definition example_request :: "http_method \<Rightarrow> string \<Rightarrow> pyval option \<Rightarrow> request" where
  "example_request m p b =
     \<lparr>req_method = m, req_path = p, q_status = None, q_client_id = None, q_limit = None,
      req_body = b\<rparr>"

definition draft_request :: request where
  "draft_request =
     \<lparr>req_method = GET, req_path = ''/invoices'', q_status = Some (u ''draft''),
      q_client_id = None, q_limit = None, req_body = None\<rparr>"

definition example_doc :: doc where
  "example_doc =
     [(u ''_id'', VObjectId (ObjectId (u ''0000000000000000000000ff''))),
      (u ''created_at'', VDatetime \<lparr>year = 2024, month = 3, day = 7, hour = 9, minute = 5,
          second = 0, microsecond = 0, utcoffset = None\<rparr>),
      (u ''name'', VStr (u ''Acme Co''))]"






definition invoice_with :: "str \<Rightarrow> invoice" where
  "invoice_with c =
     \<lparr>inv_invoice_number = None, inv_client_id = Some c, inv_issue_date = None,
      inv_due_date = None, inv_items = [], inv_currency = u ''USD'', inv_status = u ''draft'',
      inv_notes = None, inv_terms = None\<rparr>"

definition invoice_request :: "str \<Rightarrow> request" where
  "invoice_request c =
     example_request POST ''/invoices'' (Some (VDict [(u ''client_id'', VStr c)]))"

definition inf_item :: invoice_item where
  "inf_item =
     \<lparr>item_description = u ''Hosting'', item_quantity = PyInt 1,
      item_unit_price = 0x7FF0000000000000\<rparr>"

definition inf_body :: doc where
  "inf_body =
     [(u ''client_id'', VStr []),
      (u ''items'', VList [VDict [(u ''description'', VStr (u ''Hosting'')),
                                  (u ''unit_price'', VFloat 0x7FF0000000000000)]])]"

definition cjk_id :: str where
  "cjk_id = [0x4E2D, 0x6587, 0x4E2D, 0x6587, 0x4E2D, 0x6587, 0x4E2D, 0x6587]"

definition inf_invoice :: invoice where
  "inf_invoice = (invoice_with [])\<lparr>inv_items := [inf_item]\<rparr>"

section \<open>Records that can be rendered\<close>

text \<open>
  Whether the record of a validated model can be written as JSON: its optional strings,
  the only ones without a constraint, are text, and the numbers of its items are finite.
  The spec does not say what the store does with a string that cannot be encoded; the
  theorems below state what is stored only for a record whose strings are text.
\<close>

definition opt_text :: "str option \<Rightarrow> bool" where
  "opt_text x = (case x of None \<Rightarrow> True | Some s \<Rightarrow> is_text s)"


definition item_finite :: "invoice_item \<Rightarrow> bool" where
  "item_finite it =
     ((case item_quantity it of PyInt i \<Rightarrow> True | PyFloat x \<Rightarrow> finite_float x)
       \<and> finite_float (item_unit_price it))"

definition invoice_text :: "invoice \<Rightarrow> bool" where
  "invoice_text i =
     (opt_text (inv_invoice_number i) \<and> opt_text (inv_client_id i) \<and> opt_text (inv_issue_date i)
       \<and> opt_text (inv_due_date i) \<and> opt_text (inv_notes i) \<and> opt_text (inv_terms i))"

definition invoice_renders :: "invoice \<Rightarrow> bool" where
  "invoice_renders i = (invoice_text i \<and> list_all item_finite (inv_items i))"




section \<open>Literals\<close>

lemma u_inject [simp]: "(u a = u b) = (a = b)"
  by (simp add: u_def inj_map_eq_map [OF inj_of_char])

lemma u_Nil [simp]: "u [] = []"
  by (simp add: u_def)

lemma u_eq_Nil [simp]: "(u s = []) = (s = [])" "([] = u s) = (s = [])"
  by (auto simp: u_def)

lemma length_u [simp]: "length (u s) = length s"
  by (simp add: u_def)

lemma u_append: "u (a @ b) = u a @ u b"
  by (simp add: u_def)

lemma of_char_scalar: "is_scalar (of_char c)"
  unfolding is_scalar_def using nat_of_char_less_256 [of c] by linarith

lemma is_text_u [simp]: "is_text (u s)"
  by (induction s) (simp_all add: is_text_def u_def of_char_scalar)

lemma is_text_Nil [simp]: "is_text []"
  by (simp add: is_text_def)

lemma is_text_append [simp]: "is_text (a @ b) = (is_text a \<and> is_text b)"
  by (simp add: is_text_def)

section \<open>Dictionaries and the serializer\<close>

lemma dict_set_fresh: "k \<notin> fst ` set kvs \<Longrightarrow> dict_set kvs k v = kvs @ [(k, v)]"
  by (induction kvs) auto

lemma fold_dict_set_distinct:
  "distinct (map fst (acc @ d)) \<Longrightarrow>
   fold (\<lambda>(k, v) out. dict_set out k (f v)) d acc = acc @ map (\<lambda>(k, v). (k, f v)) d"
proof (induction d arbitrary: acc)
  case Nil
  then show ?case by simp
next
  case (Cons kv d)
  obtain k v where kv: "kv = (k, v)" by (cases kv)
  from Cons.prems kv have fresh: "k \<notin> fst ` set acc" by auto
  from Cons.prems kv have "distinct (map fst ((acc @ [(k, f v)]) @ d))" by auto
  from Cons.IH [OF this] show ?case
    by (simp add: kv dict_set_fresh [OF fresh])
qed

lemma serialize_value_case:
  "serialize_value v =
     (case v of VObjectId i \<Rightarrow> VStr (str_oid i) | VDatetime t \<Rightarrow> VStr (isoformat t) | _ \<Rightarrow> v)"
  by (cases v) simp_all

lemma serialize_doc_map:
  "distinct (map fst d) \<Longrightarrow> serialize_doc d = map (\<lambda>(k, v). (k, serialize_value v)) d"
  unfolding serialize_doc_def
  using fold_dict_set_distinct [of "[]" d serialize_value] by simp

text \<open>
  C5. \<open>_serialize_doc\<close> is a total function on documents (a dict has distinct keys):
  it returns the fields of the record in order, an ObjectId value replaced by its string
  form, a datetime value replaced by its ISO-8601 string, every other value unchanged.
\<close>

theorem serialize_doc_fields:
  "distinct (map fst d) \<Longrightarrow>
   serialize_doc d =
     map (\<lambda>(k, v). (k, case v of
                          VObjectId i \<Rightarrow> VStr (str_oid i)
                        | VDatetime t \<Rightarrow> VStr (isoformat t)
                        | _ \<Rightarrow> v)) d"
  by (simp add: serialize_doc_map serialize_value_case [abs_def])

lemma example_isoformat:
  "isoformat \<lparr>year = 2024, month = 3, day = 7, hour = 9, minute = 5,
          second = 0, microsecond = 0, utcoffset = None\<rparr> = u ''2024-03-07T09:05:00''"
  by (simp add: isoformat_def format_time_def format_offset_def zpad_def digit_char_def u_def)

theorem serialize_doc_fields_witness:
  "distinct (map fst example_doc) \<and>
   serialize_doc example_doc =
     [(u ''_id'', VStr (u ''0000000000000000000000ff'')),
      (u ''created_at'', VStr (u ''2024-03-07T09:05:00'')),
      (u ''name'', VStr (u ''Acme Co''))]"
  using serialize_doc_fields [of example_doc]
  by (simp add: example_doc_def example_isoformat)


section \<open>Rendering\<close>

lemma is_text_marks [simp]: "is_text check_mark" "is_text cross_mark" "is_text warning_sign"
  by (simp_all add: is_text_def is_scalar_def check_mark_def cross_mark_def warning_sign_def)

lemma render_ok_names [simp]: "list_all id (map render_ok (map VStr (map u ns)))"
  by (induction ns) simp_all

lemma jsonable_strs [simp]: "map jsonable (map VStr xs) = map VStr xs"
  by (induction xs) simp_all

lemma render_ok_names_comp [simp]: "list_all id (map (render_ok \<circ> (VStr \<circ> u)) ns)"
  by (induction ns) simp_all

lemma jsonable_strs_comp [simp]: "map (jsonable \<circ> (VStr \<circ> f)) xs = map (VStr \<circ> f) xs"
  by (induction xs) simp_all

lemma render_plain:
  "render_ok v \<Longrightarrow> jsonable v = v \<Longrightarrow> render code v = Response code v"
  by (simp add: render_def)

section \<open>Routing\<close>

lemma resolve_health: "resolve GET ''/api/health'' = Found Health"
  by (simp add: resolve_def routes_def)

lemma resolve_test: "resolve GET ''/test'' = Found Test_database"
  by (simp add: resolve_def routes_def)

lemma resolve_list_clients: "resolve GET ''/clients'' = Found List_clients"
  by (simp add: resolve_def routes_def)


lemma resolve_list_invoices: "resolve GET ''/invoices'' = Found List_invoices"
  by (simp add: resolve_def routes_def)

lemma resolve_create_invoice: "resolve POST ''/invoices'' = Found Create_invoice"
  by (simp add: resolve_def routes_def)

text \<open>
  C7, as stated, fails: no route is registered at \<open>/health\<close>, so a GET of that path is
  answered with 404.
\<close>

theorem health_path_counterexample:
  "fst (handle example_lib (example_request GET ''/health'' None) example_world)
     = Response 404 (VDict [(u ''detail'', VStr (u ''Not Found''))])"
  by (simp add: handle_def example_request_def resolve_def routes_def rstrip_slash_def)

text \<open>
  C7, amended: the health route is registered at \<open>/api/health\<close>; a GET of that path
  returns the static body \<open>{status: ok}\<close> with status 200 and leaves the state as it is.
\<close>

theorem api_health_static:
  "req_method rq = GET \<Longrightarrow> req_path rq = ''/api/health'' \<Longrightarrow>
   handle L rq w = (Response 200 (VDict [(u ''status'', VStr (u ''ok''))]), w)"
  by (simp add: handle_def resolve_health health_def render_def)

theorem api_health_static_witness:
  "req_method (example_request GET ''/api/health'' None) = GET \<and>
   req_path (example_request GET ''/api/health'' None) = ''/api/health'' \<and>
   handle example_lib (example_request GET ''/api/health'' None) example_world
     = (Response 200 (VDict [(u ''status'', VStr (u ''ok''))]), example_world)"
  using api_health_static [of "example_request GET ''/api/health'' None" example_lib example_world]
  by (simp add: example_request_def)

section \<open>Listing invoices\<close>

text \<open>
  C9. A \<open>status\<close> or \<open>client_id\<close> query parameter given as the empty string adds no
  entry to the filter: the filter, the handler's result and the response are those of
  the request without the parameter.
\<close>

theorem empty_query_filter_absent:
  "invoice_filter (Some []) c = invoice_filter None c \<and>
   invoice_filter s (Some []) = invoice_filter s None \<and>
   invoice_filter (Some []) (Some []) = [] \<and>
   list_invoices (Some []) c n d = list_invoices None c n d \<and>
   list_invoices s (Some []) n d = list_invoices s None n d \<and>
   handle L (rq\<lparr>q_status := Some []\<rparr>) w = handle L (rq\<lparr>q_status := None\<rparr>) w \<and>
   handle L (rq\<lparr>q_client_id := Some []\<rparr>) w = handle L (rq\<lparr>q_client_id := None\<rparr>) w"
proof -
  have f: "invoice_filter (Some []) c = invoice_filter None c"
    "invoice_filter s (Some []) = invoice_filter s None"
    "invoice_filter (Some []) (Some []) = []"
    by (simp_all add: invoice_filter_def)
  have l: "list_invoices (Some []) c n d = list_invoices None c n d"
    "list_invoices s (Some []) n d = list_invoices s None n d"
    "\<And>c' n' d'. list_invoices (Some []) c' n' d' = list_invoices None c' n' d'"
    "\<And>s' n' d'. list_invoices s' (Some []) n' d' = list_invoices s' None n' d'"
    by (simp_all add: list_invoices_def invoice_filter_def)
  have h: "handle L (rq\<lparr>q_status := Some []\<rparr>) w = handle L (rq\<lparr>q_status := None\<rparr>) w"
    "handle L (rq\<lparr>q_client_id := Some []\<rparr>) w = handle L (rq\<lparr>q_client_id := None\<rparr>) w"
    by (simp_all add: handle_def l split: routed.splits handler.splits sum.splits)
  from f l(1,2) h show ?thesis by simp
qed

lemma stored_invoices:
  "get_documents ''invoice'' [(u ''status'', VStr (u ''draft''))] 50 (Some stored_db) =
     Inr [[(u ''_id'', VObjectId (ObjectId (u ''000000000000000000000001''))),
           (u ''client_id'', VStr (u ''000000000000000000000000'')),
           (u ''status'', VStr (u ''draft''))]]"
  by (simp add: get_documents_def stored_db_def coll_def matches_def dict_get_def)

lemma draft_listing:
  "handle example_lib draft_request stored_world =
     (Response 200 (VList [VDict [(u ''_id'', VStr (u ''000000000000000000000001'')),
                                  (u ''client_id'', VStr (u ''000000000000000000000000'')),
                                  (u ''status'', VStr (u ''draft''))]]), stored_world)"
proof -
  have f: "invoice_filter (Some (u ''draft'')) None = [(u ''status'', VStr (u ''draft''))]"
    by (simp add: invoice_filter_def)
  have l: "list_invoices (Some (u ''draft'')) None 50 (Some stored_db) =
     Inr [[(u ''_id'', VStr (u ''000000000000000000000001'')),
           (u ''client_id'', VStr (u ''000000000000000000000000'')),
           (u ''status'', VStr (u ''draft''))]]"
    by (simp add: list_invoices_def f stored_invoices serialize_doc_def)
  show ?thesis
    by (simp add: handle_def draft_request_def resolve_list_invoices validate_limit_def
        stored_world_def l respond_def docs_json_def render_def)
qed

text \<open>
  C8. Two consecutive GET /invoices requests with the same parameters: the first leaves
  the state as it found it, and the second returns the same response.
\<close>

theorem list_invoices_idempotent:
  "req_method rq = GET \<Longrightarrow> req_path rq = ''/invoices'' \<Longrightarrow>
   handle L rq w = (r1, w1) \<Longrightarrow> handle L rq w1 = (r2, w2) \<Longrightarrow>
   w1 = w \<and> w2 = w \<and> r2 = r1"
  by (auto simp: handle_def resolve_list_invoices split: sum.splits)

theorem list_invoices_idempotent_witness:
  "req_method draft_request = GET \<and> req_path draft_request = ''/invoices'' \<and>
   (\<exists>r. handle example_lib draft_request stored_world = (r, stored_world) \<and>
        handle example_lib draft_request stored_world = (r, stored_world) \<and>
        r \<noteq> Response 200 (VList []))"
proof -
  have m: "req_method draft_request = GET" and p: "req_path draft_request = ''/invoices''"
    by (simp_all add: draft_request_def)
  from list_invoices_idempotent [OF m p draft_listing draft_listing] m p draft_listing
  show ?thesis by simp
qed


section \<open>The diagnostic route never fails\<close>

lemma test_database_plain:
  "render_ok (VDict (test_database e h)) \<and>
   jsonable (VDict (test_database e h)) = VDict (test_database e h)"
  by (simp add: test_database_def Let_def split: option.splits sum.splits)

text \<open>
  C6. Whatever the handle is (absent, with a name that cannot be read, with a listing
  that raises, or working), GET /test answers 200 with the response dict: the raised
  text is rendered in the field \<open>database\<close>, cut to 80 characters, and the field
  \<open>collections\<close> holds at most 10 names.
\<close>

theorem test_route_never_fails:
  "req_method rq = GET \<Longrightarrow> req_path rq = ''/test'' \<Longrightarrow>
   \<exists>body names msg.
     handle L rq w = (Response 200 (VDict body), w) \<and>
     dict_get body (u ''collections'') = Some (VList (map VStr names)) \<and>
     length names \<le> 10 \<and>
     dict_get body (u ''database'') = Some (VStr msg) \<and>
     msg =
       (case db w of
          None \<Rightarrow> warning_sign @ u ''  Available but not initialized''
        | Some d \<Rightarrow>
            (case db_name d of
               Inl m \<Rightarrow> cross_mark @ u '' Error: '' @ u (take 80 m)
             | Inr nm \<Rightarrow>
                 (case list_collection_names d of
                    Inl m \<Rightarrow> warning_sign @ u ''  Connected but Error: '' @ u (take 80 m)
                  | Inr ns \<Rightarrow> check_mark @ u '' Connected & Working'')))"
proof -
  assume rq: "req_method rq = GET" "req_path rq = ''/test''"
  let ?body = "test_database (env_database_url w) (db w)"
  let ?names =
    "case db w of
       None \<Rightarrow> []
     | Some d \<Rightarrow>
         (case db_name d of
            Inl m \<Rightarrow> []
          | Inr nm \<Rightarrow>
              (case list_collection_names d of Inl m \<Rightarrow> [] | Inr ns \<Rightarrow> map u (take 10 ns)))"
  have "render 200 (VDict ?body) = Response 200 (VDict ?body)"
    using test_database_plain [of "env_database_url w" "db w"] by (simp only: render_plain)
  then have h: "handle L rq w = (Response 200 (VDict ?body), w)"
    by (simp add: handle_def rq resolve_test)
  have c: "dict_get ?body (u ''collections'') = Some (VList (map VStr ?names))"
    by (simp add: test_database_def dict_get_def Let_def split: option.splits sum.splits)
  have n: "length ?names \<le> 10"
    by (simp split: option.splits sum.splits)
  have m: "dict_get ?body (u ''database'') = Some (VStr
       (case db w of
          None \<Rightarrow> warning_sign @ u ''  Available but not initialized''
        | Some d \<Rightarrow>
            (case db_name d of
               Inl m \<Rightarrow> cross_mark @ u '' Error: '' @ u (take 80 m)
             | Inr nm \<Rightarrow>
                 (case list_collection_names d of
                    Inl m \<Rightarrow> warning_sign @ u ''  Connected but Error: '' @ u (take 80 m)
                  | Inr ns \<Rightarrow> check_mark @ u '' Connected & Working''))))"
    by (simp add: test_database_def dict_get_def Let_def split: option.splits sum.splits)
  from h c n m show ?thesis by blast
qed

theorem test_route_never_fails_witness:
  "req_method (example_request GET ''/test'' None) = GET \<and>
   req_path (example_request GET ''/test'' None) = ''/test'' \<and>
   (\<exists>body. handle example_lib (example_request GET ''/test'' None) faulty_world
              = (Response 200 (VDict body), faulty_world) \<and>
           dict_get body (u ''database'')
              = Some (VStr (warning_sign @ u ''  Connected but Error: '' @ u ''timed out'')))"
  using test_route_never_fails
    [of "example_request GET ''/test'' None" example_lib faulty_world]
  by (auto simp: example_request_def faulty_world_def example_db_def
      list_collection_names_def)


section \<open>Generated identifiers are valid identifiers\<close>

lemma digit_char_hex:
  "is_hex (digit_char d) \<and> \<not> is_space (digit_char d) \<and> lower_hex (digit_char d) = digit_char d
     \<and> is_scalar (digit_char d)"
proof -
  have "d mod 16 < 16" by simp
  then show ?thesis
    unfolding digit_char_def is_hex_def is_space_def lower_hex_def is_scalar_def
    by (cases "d mod 16 < 10") (simp_all, linarith+)
qed

lemma length_hex_digits: "length (hex_digits k n) = k"
  by (induction k arbitrary: n) simp_all

lemma hex_digits_hex:
  "list_all (\<lambda>c. is_hex c \<and> \<not> is_space c \<and> lower_hex c = c) (hex_digits k n)"
  by (induction k arbitrary: n) (simp_all add: digit_char_hex)

lemma is_text_hex_digits: "is_text (hex_digits k n)"
  by (induction k arbitrary: n) (simp_all add: is_text_def digit_char_hex)

lemma fromhex_digits:
  "list_all (\<lambda>c. is_hex c \<and> \<not> is_space c \<and> lower_hex c = c) xs \<Longrightarrow> even (length xs) \<Longrightarrow>
   fromhex xs = Some xs"
  by (induction xs rule: induct_list012) simp_all

lemma make_oid_hex24: "make_oid (hex24 n) = Inr (gen_oid n)"
proof -
  have "even (length (hex_digits 24 n))"
    by (simp add: length_hex_digits)
  from fromhex_digits [OF hex_digits_hex this] show ?thesis
    by (simp add: make_oid_def hex24_def gen_oid_def length_hex_digits)
qed


lemma is_text_hex24 [simp]: "is_text (hex24 n)"
  by (simp add: hex24_def is_text_hex_digits)

section \<open>Insert and re-fetch\<close>

lemma map_of_dict_set: "map_of (dict_set kvs k v) k = Some v"
  by (induction kvs) auto

lemma create_document_ok:
  "fault d = None \<Longrightarrow>
   create_document c data (Some d) = (Inr (hex24 (next_id d)), Some (inserted c data d))"
  by (simp add: create_document_def gen_oid_def)

lemma coll_inserted:
  "coll (inserted c data d) c =
     coll d c @ [(u ''_id'', VObjectId (gen_oid (next_id d))) # data]"
  by (simp add: coll_def inserted_def map_of_dict_set)

lemma find_append_fresh:
  "find P xs = None \<Longrightarrow> P x \<Longrightarrow> find P (xs @ [x]) = Some x"
  by (induction xs) (auto split: if_splits)

lemma fetch_inserted_ok:
  assumes f: "fault d = None"
    and fresh: "find (matches [(u ''_id'', VObjectId (gen_oid (next_id d)))]) (coll d c) = None"
  shows "fetch_inserted c (hex24 (next_id d)) (Some (inserted c data d)) =
           Inr (serialize_doc ((u ''_id'', VObjectId (gen_oid (next_id d))) # data))"
proof -
  define i where "i = gen_oid (next_id d)"
  define stored where "stored = (u ''_id'', VObjectId i) # data"
  define d' where "d' = inserted c data d"
  have m: "matches [(u ''_id'', VObjectId i)] stored"
    by (simp add: matches_def dict_get_def stored_def)
  have fr: "find (matches [(u ''_id'', VObjectId i)]) (coll d c) = None"
    using fresh by (simp add: i_def)
  have c: "coll d' c = coll d c @ [stored]"
    by (simp add: d'_def stored_def i_def coll_inserted)
  have fnd: "find (matches [(u ''_id'', VObjectId i)]) (coll d' c) = Some stored"
    unfolding c by (rule find_append_fresh [OF fr m])
  have fl: "fault d' = None"
    by (simp add: d'_def inserted_def f)
  have ne: "stored \<noteq> []"
    by (simp add: stored_def)
  have mk: "make_oid (hex24 (next_id d)) = Inr i"
    by (simp add: make_oid_hex24 i_def)
  have "fetch_inserted c (hex24 (next_id d)) (Some d') = Inr (serialize_doc stored)"
    by (simp add: fetch_inserted_def subscript_def mk find_one_def fl fnd created_response_def ne)
  then show ?thesis
    by (simp add: d'_def stored_def i_def)
qed


lemma serialize_invoice_dump:
  "serialize_doc ((u ''_id'', VObjectId (gen_oid n)) # invoice_dump p) =
     (u ''_id'', VStr (hex24 n)) # invoice_dump p"
  by (simp add: serialize_doc_map invoice_dump_def dump_opt_def gen_oid_def split: option.splits)


lemma hex_digits_numeral:
  "hex_digits (numeral k) n = hex_digits (pred_numeral k) (n div 16) @ [digit_char (n mod 16)]"
proof -
  have "hex_digits (Suc (pred_numeral k)) n
          = hex_digits (pred_numeral k) (n div 16) @ [digit_char (n mod 16)]"
    by (rule hex_digits.simps)
  then show ?thesis by (simp only: numeral_eq_Suc [symmetric])
qed

lemma hex24_3: "hex24 3 = u ''000000000000000000000003''"
  by (simp add: hex24_def hex_digits_numeral digit_char_def u_def)


lemma stored_fresh_invoice:
  "find (matches [(u ''_id'', VObjectId (gen_oid (next_id stored_db)))]) (coll stored_db ''invoice'')
     = None"
  by (simp add: stored_db_def coll_def matches_def dict_get_def gen_oid_def hex24_3)


section \<open>Validation of a client\<close>

lemma ap_Inr_iff: "ap f x = Inr y \<longleftrightarrow> (\<exists>g a. f = Inr g \<and> x = Inr a \<and> y = g a)"
  by (cases f; cases x) auto


lemma str_field_Inr:
  "str_field loc k lo hi fs = Inr s \<Longrightarrow>
   dict_get fs (u k) = Some (VStr s) \<and> lo \<le> length s \<and> length s \<le> hi \<and> is_text s"
  by (auto simp: str_field_def split: option.splits pyval.splits if_splits)


lemma dump_opt_plain [simp]:
  "render_ok (dump_opt x) = opt_text x" "jsonable (dump_opt x) = dump_opt x"
  by (simp_all add: dump_opt_def opt_text_def split: option.splits)


lemma literal_field_text: "literal_field loc k allowed dflt fs = Inr x \<Longrightarrow> is_text x"
  by (auto simp: literal_field_def split: option.splits pyval.splits if_splits)





section \<open>Creating a client\<close>










section \<open>Rejecting a client without a usable name\<close>


















section \<open>The reference check of an invoice\<close>

lemma validate_invoice_with:
  "validate_invoice example_lib (req_body (invoice_request c)) = Inr (invoice_with c)"
  by (simp add: invoice_request_def example_request_def validate_invoice_def invoice_fields_def
      opt_str_field_def items_field_def literal_field_def dict_get_def mk_invoice_def
      invoice_with_def)

lemma invoice_request_route:
  "req_method (invoice_request c) = POST" "req_path (invoice_request c) = ''/invoices''"
  by (simp_all add: invoice_request_def example_request_def)

lemma find_client_wrong_length: "length c \<noteq> 24 \<Longrightarrow> find_client c h = Inr None"
  by (simp add: find_client_def)

lemma check_client_wrong_length:
  "c \<noteq> [] \<Longrightarrow> length c \<noteq> 24 \<Longrightarrow>
   check_client (Some c) h = Inl (HTTPException 400 (u ''Invalid client_id''))"
  by (simp add: check_client_def find_client_wrong_length)

lemma invalid_client_id_response:
  "render 400 (VDict [(u ''detail'', VStr (u ''Invalid client_id''))])
     = Response 400 (VDict [(u ''detail'', VStr (u ''Invalid client_id''))])"
  by (simp add: render_def)

text \<open>
  C1, as stated, fails: a POST /invoices with the client_id \<open>abc\<close> is not created but
  answered with 400, and the state is unchanged.
\<close>

theorem short_client_id_counterexample:
  "handle example_lib (invoice_request (u ''abc'')) stored_world
     = (Response 400 (VDict [(u ''detail'', VStr (u ''Invalid client_id''))]), stored_world)"
  by (simp add: handle_def invoice_request_route resolve_create_invoice validate_invoice_with
      create_invoice_def invoice_with_def check_client_wrong_length respond_def
      invalid_client_id_response)

text \<open>
  C1, amended: for a non-empty client_id whose length is not 24 no lookup is made, the
  client counts as not found, and the request fails with 400 and detail
  \<open>Invalid client_id\<close>; nothing is persisted.
\<close>

theorem wrong_length_client_id_rejected:
  assumes "req_method rq = POST" and "req_path rq = ''/invoices''"
    and "validate_invoice L (req_body rq) = Inr p"
    and "inv_client_id p = Some c" and "c \<noteq> []" and "length c \<noteq> 24"
  shows "create_invoice p (db w) = (Inl (HTTPException 400 (u ''Invalid client_id'')), db w) \<and>
         handle L rq w =
           (Response 400 (VDict [(u ''detail'', VStr (u ''Invalid client_id''))]), w)"
proof -
  have c: "create_invoice p (db w) = (Inl (HTTPException 400 (u ''Invalid client_id'')), db w)"
    by (simp add: create_invoice_def assms(4) check_client_wrong_length [OF assms(5,6)])
  have "handle L rq w =
          (Response 400 (VDict [(u ''detail'', VStr (u ''Invalid client_id''))]), w)"
    by (simp add: handle_def assms(1,2,3) resolve_create_invoice c respond_def
        invalid_client_id_response)
  with c show ?thesis by simp
qed

theorem wrong_length_client_id_rejected_witness:
  "validate_invoice example_lib (req_body (invoice_request cjk_id)) = Inr (invoice_with cjk_id) \<and>
   length cjk_id = 8 \<and>
   handle example_lib (invoice_request cjk_id) stored_world
     = (Response 400 (VDict [(u ''detail'', VStr (u ''Invalid client_id''))]), stored_world)"
proof -
  have 4: "inv_client_id (invoice_with cjk_id) = Some cjk_id"
    by (simp add: invoice_with_def)
  have 5: "cjk_id \<noteq> []" and 6: "length cjk_id \<noteq> 24" and 7: "length cjk_id = 8"
    by (simp_all add: cjk_id_def)
  from wrong_length_client_id_rejected
    [OF invoice_request_route validate_invoice_with 4 5 6, of stored_world]
    validate_invoice_with 7
  show ?thesis by simp
qed

lemma make_oid_z:
  "make_oid (u ''zzzzzzzzzzzzzzzzzzzzzzzz'') = Inl (InvalidId (u ''zzzzzzzzzzzzzzzzzzzzzzzz''))"
  by (simp add: make_oid_def u_def is_hex_def is_space_def)

text \<open>
  C2 at a client_id of 24 characters that are not hexadecimal digits: \<open>ObjectId\<close>
  raises \<open>InvalidId\<close> before the lookup, the handler does not catch it, and the
  response is 500 instead of the 400 with detail \<open>Invalid client_id\<close>. Nothing is
  persisted.
\<close>

theorem non_hex_client_id_unhandled:
  "create_invoice (invoice_with (u ''zzzzzzzzzzzzzzzzzzzzzzzz'')) (Some stored_db)
     = (Inl (InvalidId (u ''zzzzzzzzzzzzzzzzzzzzzzzz'')), Some stored_db) \<and>
   handle example_lib (invoice_request (u ''zzzzzzzzzzzzzzzzzzzzzzzz'')) stored_world
     = (Response 500 (VStr (u ''Internal Server Error'')), stored_world)"
proof -
  have f: "find_client (u ''zzzzzzzzzzzzzzzzzzzzzzzz'') (Some stored_db)
             = Inl (InvalidId (u ''zzzzzzzzzzzzzzzzzzzzzzzz''))"
    by (simp add: find_client_def subscript_def make_oid_z)
  have c: "create_invoice (invoice_with (u ''zzzzzzzzzzzzzzzzzzzzzzzz'')) (Some stored_db)
     = (Inl (InvalidId (u ''zzzzzzzzzzzzzzzzzzzzzzzz'')), Some stored_db)"
    by (simp add: create_invoice_def invoice_with_def check_client_def f)
  have d: "db stored_world = Some stored_db"
    by (simp add: stored_world_def)
  have "handle example_lib (invoice_request (u ''zzzzzzzzzzzzzzzzzzzzzzzz'')) stored_world
     = (Response 500 (VStr (u ''Internal Server Error'')), stored_world)"
    by (simp add: handle_def invoice_request_route resolve_create_invoice validate_invoice_with
        d c respond_def stored_world_def server_error_def)
  with c show ?thesis by simp
qed

text \<open>
  For 24 characters that decode to an identifier matching no stored client the handler
  does raise the 400, and leaves the store as it is. This covers 24 hexadecimal digits,
  and also digits with white space between the pairs, which decode to a shorter
  identifier.
\<close>

lemma unknown_client_id_rejected:
  assumes "inv_client_id p = Some c" and "length c = 24" and "fromhex c = Some h"
    and "fault d = None"
    and "find (matches [(u ''_id'', VObjectId (ObjectId h))]) (coll d ''client'') = None"
  shows "create_invoice p (Some d) =
           (Inl (HTTPException 400 (u ''Invalid client_id'')), Some d)"
proof -
  from assms(2) have ne: "c \<noteq> []" by auto
  have "find_client c (Some d) = Inr None"
    by (simp add: find_client_def subscript_def make_oid_def find_one_def assms(2-5))
  then show ?thesis
    by (simp add: create_invoice_def check_client_def assms(1) ne)
qed

lemma spaced_client_id_decodes:
  "length (u ''00 00 00 00 00 00 00 00 '') = 24 \<and>
   fromhex (u ''00 00 00 00 00 00 00 00 '') = Some (u ''0000000000000000'')"
  by (simp add: u_def is_hex_def is_space_def lower_hex_def)


section \<open>An empty client_id\<close>

lemma check_client_empty: "check_client (Some []) h = Inr ()"
  by (simp add: check_client_def)

lemma create_invoice_ok:
  assumes "check_client (inv_client_id p) (Some d) = Inr ()"
    and "fault d = None"
    and "find (matches [(u ''_id'', VObjectId (gen_oid (next_id d)))]) (coll d ''invoice'') = None"
  shows "create_invoice p (Some d) =
           (Inr ((u ''_id'', VStr (hex24 (next_id d))) # invoice_dump p),
            Some (inserted ''invoice'' (invoice_dump p) d))"
  by (simp add: create_invoice_def assms(1) create_document_ok [OF assms(2)]
      fetch_inserted_ok [OF assms(2,3)] serialize_invoice_dump)

lemma validate_invoice_Inr:
  "validate_invoice L b = Inr p \<Longrightarrow> \<exists>fs. b = Some (VDict fs) \<and> invoice_fields L fs = Inr p"
  by (auto simp: validate_invoice_def split: option.splits pyval.splits sum.splits)

lemma invoice_fields_Inr:
  assumes "invoice_fields L fs = Inr p"
  shows "opt_str_field [VStr (u ''body'')] ''invoice_number'' fs = Inr (inv_invoice_number p)"
    and "opt_str_field [VStr (u ''body'')] ''client_id'' fs = Inr (inv_client_id p)"
    and "opt_str_field [VStr (u ''body'')] ''issue_date'' fs = Inr (inv_issue_date p)"
    and "opt_str_field [VStr (u ''body'')] ''due_date'' fs = Inr (inv_due_date p)"
    and "items_field L fs = Inr (inv_items p)"
    and "literal_field [VStr (u ''body'')] ''currency'' currencies ''USD'' fs
           = Inr (inv_currency p)"
    and "literal_field [VStr (u ''body'')] ''status'' invoice_statuses ''draft'' fs
           = Inr (inv_status p)"
    and "opt_str_field [VStr (u ''body'')] ''notes'' fs = Inr (inv_notes p)"
    and "opt_str_field [VStr (u ''body'')] ''terms'' fs = Inr (inv_terms p)"
  using assms by (auto simp: invoice_fields_def ap_Inr_iff mk_invoice_def)

lemma validate_item_text:
  "validate_item L loc v = Inr it \<Longrightarrow> is_text (item_description it)"
  by (auto simp: validate_item_def ap_Inr_iff mk_item_def dest: str_field_Inr
      split: pyval.splits)

lemma validate_items_text:
  "validate_items L i vs = Inr its \<Longrightarrow> list_all (\<lambda>it. is_text (item_description it)) its"
  by (induction vs arbitrary: i its) (auto simp: ap_Inr_iff dest: validate_item_text)

lemma items_field_text:
  "items_field L fs = Inr its \<Longrightarrow> list_all (\<lambda>it. is_text (item_description it)) its"
  by (auto simp: items_field_def dest: validate_items_text
      split: option.splits pyval.splits)

lemma items_render_ok:
  "list_all (\<lambda>it. is_text (item_description it)) its \<Longrightarrow>
   list_all id (map render_ok (map item_dump its)) = list_all item_finite its"
  by (induction its)
    (auto simp: item_dump_def item_finite_def dump_num_def split: py_num.splits)

lemma item_jsonable: "jsonable (item_dump it) = item_dump it"
  by (simp add: item_dump_def dump_num_def split: py_num.splits)

lemma invoice_record_render:
  assumes "invoice_fields L fs = Inr p"
  shows "render 201 (VDict ((u ''_id'', VStr (hex24 n)) # invoice_dump p))
           = (if invoice_renders p
              then Response 201 (VDict ((u ''_id'', VStr (hex24 n)) # invoice_dump p))
              else Response 500 (VStr (u ''Internal Server Error'')))"
proof -
  note v = invoice_fields_Inr [OF assms]
  have ok: "render_ok (VDict ((u ''_id'', VStr (hex24 n)) # invoice_dump p)) = invoice_renders p"
    using items_render_ok [OF items_field_text [OF v(5)]]
      literal_field_text [OF v(6)] literal_field_text [OF v(7)]
    by (auto simp: invoice_dump_def invoice_renders_def invoice_text_def)
  have js: "jsonable (VDict ((u ''_id'', VStr (hex24 n)) # invoice_dump p))
              = VDict ((u ''_id'', VStr (hex24 n)) # invoice_dump p)"
    by (simp add: invoice_dump_def item_jsonable)
  show ?thesis
    unfolding render_def ok js server_error_def by (rule refl)
qed

lemma create_invoice_response:
  assumes "req_method rq = POST" and "req_path rq = ''/invoices''"
    and "validate_invoice L (req_body rq) = Inr p"
    and "check_client (inv_client_id p) (Some d) = Inr ()"
    and "db w = Some d" and "fault d = None"
    and "find (matches [(u ''_id'', VObjectId (gen_oid (next_id d)))]) (coll d ''invoice'') = None"
  shows "handle L rq w =
           (if invoice_renders p
            then Response 201 (VDict ((u ''_id'', VStr (hex24 (next_id d))) # invoice_dump p))
            else Response 500 (VStr (u ''Internal Server Error'')),
            w\<lparr>db := Some (inserted ''invoice'' (invoice_dump p) d)\<rparr>)"
proof -
  from validate_invoice_Inr [OF assms(3)] obtain fs
    where cf: "invoice_fields L fs = Inr p" by blast
  show ?thesis
    by (simp add: handle_def assms(1,2,3,5) resolve_create_invoice
        create_invoice_ok [OF assms(4,6,7)] respond_def invoice_record_render [OF cf])
qed


lemma validate_inf_body:
  "validate_invoice example_lib (Some (VDict inf_body)) = Inr inf_invoice"
  by (simp add: validate_invoice_def invoice_fields_def opt_str_field_def items_field_def
      literal_field_def dict_get_def mk_invoice_def invoice_with_def inf_body_def
      inf_invoice_def inf_item_def validate_item_def str_field_def quantity_field_def
      float_field_def mk_item_def example_lib_def float_ge0_def)

text \<open>
  C10, as stated, fails to be a success: with the empty client_id and an item whose unit
  price is Infinity, which passes \<open>ge=0\<close>, the check is skipped and the record is
  persisted, but the response cannot be rendered and the request is answered with 500.
\<close>

theorem infinite_price_counterexample:
  "float_ge0 (item_unit_price inf_item) \<and>
   handle example_lib (example_request POST ''/invoices'' (Some (VDict inf_body))) stored_world
     = (Response 500 (VStr (u ''Internal Server Error'')),
        stored_world\<lparr>db := Some (inserted ''invoice'' (invoice_dump inf_invoice) stored_db)\<rparr>)"
proof -
  let ?rq = "example_request POST ''/invoices'' (Some (VDict inf_body))"
  have 1: "req_method ?rq = POST" and 2: "req_path ?rq = ''/invoices''"
    by (simp_all add: example_request_def)
  have 3: "validate_invoice example_lib (req_body ?rq) = Inr inf_invoice"
    by (simp add: example_request_def validate_inf_body)
  have 4: "check_client (inv_client_id inf_invoice) (Some stored_db) = Inr ()"
    by (simp add: inf_invoice_def invoice_with_def check_client_empty)
  have 5: "db stored_world = Some stored_db" and 6: "fault stored_db = None"
    by (simp_all add: stored_world_def stored_db_def)
  have n: "\<not> invoice_renders inf_invoice"
    by (simp add: invoice_renders_def inf_invoice_def inf_item_def item_finite_def
        finite_float_def)
  have g: "float_ge0 (item_unit_price inf_item)"
    by (simp add: inf_item_def float_ge0_def)
  from create_invoice_response [OF 1 2 3 4 5 6 stored_fresh_invoice] n g
  show ?thesis by simp
qed

text \<open>
  C10, amended. A POST /invoices whose validated body has the empty string as client_id,
  against a working store whose next identifier is not in use: the reference check
  passes without any lookup, whatever the handle is. When the optional strings of the
  invoice are text, the invoice is stored at the end of the collection with \<open>client_id\<close>
  the empty string. The response is 201 with the serialized record when the record can
  be written as JSON: no optional string is ill-formed, and the quantity and the unit
  price of every item are finite. Otherwise the response is 500; with an infinite number
  the record has been persisted all the same.
\<close>

theorem empty_client_id_skips_check:
  assumes "req_method rq = POST" and "req_path rq = ''/invoices''"
    and "validate_invoice L (req_body rq) = Inr p"
    and "inv_client_id p = Some []"
    and "db w = Some d" and "fault d = None"
    and "find (matches [(u ''_id'', VObjectId (gen_oid (next_id d)))]) (coll d ''invoice'') = None"
  shows "(\<forall>h. check_client (inv_client_id p) h = Inr ()) \<and>
         (invoice_text p \<longrightarrow>
            snd (handle L rq w) = w\<lparr>db := Some (inserted ''invoice'' (invoice_dump p) d)\<rparr>) \<and>
         coll (inserted ''invoice'' (invoice_dump p) d) ''invoice'' =
           coll d ''invoice'' @ [(u ''_id'', VObjectId (gen_oid (next_id d))) # invoice_dump p] \<and>
         dict_get (invoice_dump p) (u ''client_id'') = Some (VStr []) \<and>
         fst (handle L rq w) =
           (if invoice_renders p
            then Response 201 (VDict ((u ''_id'', VStr (hex24 (next_id d))) # invoice_dump p))
            else Response 500 (VStr (u ''Internal Server Error'')))"
proof -
  have k: "\<forall>h. check_client (inv_client_id p) h = Inr ()"
    by (simp add: assms(4) check_client_empty)
  then have "check_client (inv_client_id p) (Some d) = Inr ()"
    by blast
  note h = create_invoice_response [OF assms(1,2,3) this assms(5,6,7)]
  have g: "dict_get (invoice_dump p) (u ''client_id'') = Some (VStr [])"
    by (simp add: invoice_dump_def dict_get_def assms(4) dump_opt_def)
  from k h g show ?thesis
    by (simp add: coll_inserted)
qed

theorem empty_client_id_skips_check_witness:
  "validate_invoice example_lib (req_body (invoice_request [])) = Inr (invoice_with []) \<and>
   invoice_renders (invoice_with []) \<and>
   fst (handle example_lib (invoice_request []) stored_world)
     = Response 201 (VDict
         [(u ''_id'', VStr (u ''000000000000000000000003'')),
          (u ''invoice_number'', VNone), (u ''client_id'', VStr []), (u ''issue_date'', VNone),
          (u ''due_date'', VNone), (u ''items'', VList []), (u ''currency'', VStr (u ''USD'')),
          (u ''status'', VStr (u ''draft'')), (u ''notes'', VNone), (u ''terms'', VNone)]) \<and>
   snd (handle example_lib (invoice_request []) stored_world)
     = stored_world\<lparr>db := Some (inserted ''invoice'' (invoice_dump (invoice_with [])) stored_db)\<rparr>"
proof -
  note v = validate_invoice_with [of "[]"]
  have 4: "inv_client_id (invoice_with []) = Some []"
    by (simp add: invoice_with_def)
  have 5: "db stored_world = Some stored_db" and 6: "fault stored_db = None"
    by (simp_all add: stored_world_def stored_db_def)
  have x: "invoice_text (invoice_with [])"
    by (simp add: invoice_text_def invoice_with_def opt_text_def)
  have f: "invoice_renders (invoice_with [])"
    using x by (simp add: invoice_renders_def invoice_with_def)
  have d: "(u ''_id'', VStr (hex24 (next_id stored_db))) # invoice_dump (invoice_with []) =
         [(u ''_id'', VStr (u ''000000000000000000000003'')),
          (u ''invoice_number'', VNone), (u ''client_id'', VStr []), (u ''issue_date'', VNone),
          (u ''due_date'', VNone), (u ''items'', VList []), (u ''currency'', VStr (u ''USD'')),
          (u ''status'', VStr (u ''draft'')), (u ''notes'', VNone), (u ''terms'', VNone)]"
    by (simp add: stored_db_def hex24_3 invoice_dump_def invoice_with_def dump_opt_def)
  note t = empty_client_id_skips_check [OF invoice_request_route v 4 5 6 stored_fresh_invoice]
  from t
  have a: "fst (handle example_lib (invoice_request []) stored_world)
          = (if invoice_renders (invoice_with [])
             then Response 201 (VDict ((u ''_id'', VStr (hex24 (next_id stored_db)))
                    # invoice_dump (invoice_with [])))
             else Response 500 (VStr (u ''Internal Server Error'')))"
    by blast
  from t x
  have b: "snd (handle example_lib (invoice_request []) stored_world)
     = stored_world\<lparr>db := Some (inserted ''invoice'' (invoice_dump (invoice_with [])) stored_db)\<rparr>"
    by blast
  from v f a b show ?thesis
    by (simp only: d simp_thms if_True)
qed


end
